theory Spec2Isabelle
  imports Main "HOL-Library.Word"
begin

unbundle bit_operations_syntax

section \<open>Go values: errors, panics and multi-value returns\<close>

text \<open>
  The scan types the driver reports are values of \<open>reflect.Type\<close>, compared with \<open>==\<close>.
  The fifteen package-level variables of \<open>mysql.go\<close> are pairwise different types; any
  other type is \<open>scanTypeOther\<close>, tagged with its name.
\<close>

datatype scan_type =
    scanTypeFloat32 | scanTypeFloat64
  | scanTypeInt8 | scanTypeInt16 | scanTypeInt32 | scanTypeInt64
  | scanTypeNullFloat | scanTypeNullInt | scanTypeNullTime
  | scanTypeUint8 | scanTypeUint16 | scanTypeUint32 | scanTypeUint64
  | scanTypeRawBytes | scanTypeUnknown
  | scanTypeOther string

text \<open>
  An error built by \<open>fmt.Errorf\<close> is kept as its format string and its arguments; an error
  handed up from \<open>database/sql\<close> is opaque; a run-time panic of the Go runtime or of
  \<open>reflect\<close> carries its message. Go's \<open>int\<close> is taken at 64 bits.
\<close>

datatype fmt_arg = ArgString string | ArgInt "64 word" | ArgType scan_type

datatype go_error =
    Errorf string "fmt_arg list"
  | DriverError string
  | RuntimeError string

text \<open>
  A call either panics or returns. What it returns is the tuple of Go's return values, the
  \<open>error\<close> last (\<open>None\<close> is \<open>nil\<close>); a nil slice is the empty list.
\<close>

datatype 'a outcome = Panic go_error | Return 'a

section \<open>The database/sql boundary\<close>

record sql_ColumnType =
  DatabaseTypeName :: string
  ScanType :: scan_type

text \<open>
  The two private fields of \<open>mysql.mysqlField\<close> that the code reads by reflection, as
  \<open>Uint()\<close> returns them.
\<close>

record mysqlField =
  field_length :: "64 word"
  field_flags :: "64 word"

record sql_NullString =
  String :: string
  Valid :: bool

text \<open>
  A row of a result set, seen through the two \<open>rows.Scan\<close> calls of the source: what
  \<open>Scan(&nonUnique, &columnName, &seq)\<close> and
  \<open>Scan(&columnName, &pos, &refTableName, &refColumnName)\<close> give on it.
\<close>

record sql_Row =
  scan_index :: "go_error + bool \<times> string \<times> 64 word"
  scan_fk :: "go_error + string \<times> 64 word \<times> string \<times> string"

record sql_Rows =
  ColumnTypes :: "go_error + sql_ColumnType list"
  rs_columns :: "mysqlField list"
  next_rows :: "sql_Row list"

text \<open>
  A connection answers \<open>QueryContext(ctx, query, args...)\<close> (every argument in this
  package is a string) and \<open>QueryRowContext(ctx, query).Scan(&dbName)\<close> into a
  \<open>sql.NullString\<close>.
\<close>

record sql_Conn =
  QueryContext :: "string \<Rightarrow> string list \<Rightarrow> go_error + sql_Rows"
  QueryRowContext_Scan :: "string \<Rightarrow> go_error + sql_NullString"

record Col =
  ColumnType :: sql_ColumnType
  DataType :: string

section \<open>The MySQL driver\<close>

definition DataTypes :: "string list" where
  "DataTypes =
    [''float32'', ''float64'',
     ''bool'', ''int8'', ''uint8'', ''int16'', ''uint16'', ''int32'', ''uint32'',
     ''int64'', ''uint64'',
     ''time'',
     ''bit'', ''json'', ''string'']"

definition mysqlDrv_DataTypes :: "string list" where
  "mysqlDrv_DataTypes = DataTypes"

definition flagUnsigned :: "64 word" where
  "flagUnsigned = push_bit 5 1"

definition bad :: "scan_type \<Rightarrow> string \<Rightarrow> go_error" where
  "bad scanType databaseTypeName =
     Errorf ''Unknown column type: scantype=%#v databaseTypeName=%+q''
       [ArgType scanType, ArgString databaseTypeName]"

text \<open>The body of the loop of \<open>ExtractQueryResultColumns\<close>: the switch on the scan type.\<close>

definition column_dataType :: "sql_ColumnType \<Rightarrow> mysqlField \<Rightarrow> string outcome" where
  "column_dataType columnType fld =
    (let len = field_length fld;
         flags = field_flags fld;
         isUnsigned = (flags AND flagUnsigned \<noteq> 0);
         databaseTypeName = DatabaseTypeName columnType;
         scanType = ScanType columnType
     in case scanType of
          scanTypeFloat32 \<Rightarrow> Return ''float32''
        | scanTypeFloat64 \<Rightarrow> Return ''float64''
        | scanTypeNullFloat \<Rightarrow>
            (if databaseTypeName = ''FLOAT'' then Return ''float32''
             else if databaseTypeName = ''DOUBLE'' then Return ''float64''
             else Panic (bad scanType databaseTypeName))
        | scanTypeInt8 \<Rightarrow> (if len = 1 then Return ''bool'' else Return ''int8'')
        | scanTypeInt16 \<Rightarrow> Return ''int16''
        | scanTypeInt32 \<Rightarrow> Return ''int32''
        | scanTypeInt64 \<Rightarrow> Return ''int64''
        | scanTypeUint8 \<Rightarrow> Return ''uint8''
        | scanTypeUint16 \<Rightarrow> Return ''uint16''
        | scanTypeUint32 \<Rightarrow> Return ''uint32''
        | scanTypeUint64 \<Rightarrow> Return ''uint64''
        | scanTypeNullInt \<Rightarrow>
            (if databaseTypeName = ''TINYINT'' then
               (if isUnsigned then Return ''uint8''
                else if len = 1 then Return ''bool'' else Return ''int8'')
             else if databaseTypeName = ''SMALLINT'' \<or> databaseTypeName = ''YEAR'' then
               (if isUnsigned then Return ''uint16'' else Return ''int16'')
             else if databaseTypeName = ''MEDIUMINT'' \<or> databaseTypeName = ''INT'' then
               (if isUnsigned then Return ''uint32'' else Return ''int32'')
             else if databaseTypeName = ''BIGINT'' then
               (if isUnsigned then Return ''uint64'' else Return ''int64'')
             else Panic (bad scanType databaseTypeName))
        | scanTypeNullTime \<Rightarrow> Return ''time''
        | scanTypeRawBytes \<Rightarrow>
            (if databaseTypeName = ''BIT'' then Return ''bit''
             else if databaseTypeName = ''JSON'' then Return ''json''
             else Return ''string'')
        | _ \<Rightarrow> Panic (bad scanType databaseTypeName))"

text \<open>
  The loop \<open>for i, columnType := range columnTypes\<close>. The field of column \<open>i\<close> is read
  with \<open>reflect.Value.Index(i)\<close>, which panics when the private slice is shorter.
\<close>

fun ExtractQueryResultColumns_loop ::
  "nat \<Rightarrow> sql_ColumnType list \<Rightarrow> mysqlField list \<Rightarrow> Col list \<Rightarrow> Col list outcome" where
  "ExtractQueryResultColumns_loop i [] flds columns = Return columns"
| "ExtractQueryResultColumns_loop i (columnType # rest) flds columns =
     (if length flds \<le> i then Panic (RuntimeError ''reflect: slice index out of range'')
      else case column_dataType columnType (flds ! i) of
             Panic e \<Rightarrow> Panic e
           | Return dataType \<Rightarrow>
               ExtractQueryResultColumns_loop (Suc i) rest flds
                 (columns @ [\<lparr>ColumnType = columnType, DataType = dataType\<rparr>]))"

definition ExtractQueryResultColumns ::
  "sql_Conn \<Rightarrow> string \<Rightarrow> (Col list \<times> go_error option) outcome" where
  "ExtractQueryResultColumns conn query =
    (case QueryContext conn query [] of
       Inl err \<Rightarrow> Return ([], Some err)
     | Inr rows \<Rightarrow>
        (case ColumnTypes rows of
           Inl err \<Rightarrow> Return ([], Some err)
         | Inr columnTypes \<Rightarrow>
            (case ExtractQueryResultColumns_loop 0 columnTypes (rs_columns rows) [] of
               Panic e \<Rightarrow> Panic e
             | Return columns \<Rightarrow> Return (columns, None))))"

definition Quote :: "string \<Rightarrow> string" where
  "Quote identifier = [CHR 0x60] @ identifier @ [CHR 0x60]"

definition ExtractColumns :: "sql_Conn \<Rightarrow> string \<Rightarrow> (Col list \<times> go_error option) outcome" where
  "ExtractColumns conn tableName =
     ExtractQueryResultColumns conn (''SELECT * FROM '' @ [CHR 0x60] @ tableName @ [CHR 0x60])"

definition extractDBName :: "sql_Conn \<Rightarrow> string \<times> go_error option" where
  "extractDBName conn =
    (case QueryRowContext_Scan conn ''SELECT DATABASE()'' of
       Inl err \<Rightarrow> ('''', Some err)
     | Inr dbName \<Rightarrow>
        (if String dbName = '''' then ('''', Some (Errorf ''No db selected'' []))
         else (String dbName, None)))"

text \<open>
  The row loop of \<open>ExtractIndex\<close>, over the rows that \<open>rows.Next()\<close> yields, with the
  variables \<open>nonUnique\<close>, \<open>prevSeq\<close> and \<open>columnNames\<close> it updates. A failed \<open>Scan\<close>
  leaves the loop with the error; a sequence number that is not \<open>prevSeq+1\<close> panics.
\<close>

fun ExtractIndex_loop ::
  "sql_Row list \<Rightarrow> bool \<Rightarrow> 64 word \<Rightarrow> string list \<Rightarrow>
     (go_error + bool \<times> 64 word \<times> string list) outcome" where
  "ExtractIndex_loop [] nonUnique prevSeq columnNames =
     Return (Inr (nonUnique, prevSeq, columnNames))"
| "ExtractIndex_loop (r # rest) nonUnique prevSeq columnNames =
     (case scan_index r of
        Inl err \<Rightarrow> Return (Inl err)
      | Inr (nonUnique', columnName, seq) \<Rightarrow>
          (if seq \<noteq> prevSeq + 1 then
             Panic (Errorf ''Bad SEQ_IN_INDEX, prev is %d, current is %d''
                      [ArgInt prevSeq, ArgInt seq])
           else ExtractIndex_loop rest nonUnique' seq (columnNames @ [columnName])))"

text \<open>The raw string literal of the query, with its line breaks and tabs.\<close>

definition ExtractIndex_query :: string where
  "ExtractIndex_query =
     [CHR 0x0A, CHR 0x09] @ ''SELECT '' @ [CHR 0x0A, CHR 0x09, CHR 0x09] @
      ''NON_UNIQUE, COLUMN_NAME, SEQ_IN_INDEX '' @ [CHR 0x0A, CHR 0x09] @ ''FROM'' @
      [CHR 0x0A, CHR 0x09, CHR 0x09] @ ''INFORMATION_SCHEMA.STATISTICS'' @
      [CHR 0x0A, CHR 0x09] @ ''WHERE'' @ [CHR 0x0A, CHR 0x09, CHR 0x09] @
      ''TABLE_SCHEMA=? AND TABLE_NAME=? AND INDEX_NAME=?'' @ [CHR 0x0A, CHR 0x09] @
      ''ORDER BY SEQ_IN_INDEX''"

definition ExtractIndex ::
  "sql_Conn \<Rightarrow> string \<Rightarrow> string \<Rightarrow> (string list \<times> bool \<times> bool \<times> go_error option) outcome" where
  "ExtractIndex conn tableName indexName =
    (case extractDBName conn of
       (dbName, Some err) \<Rightarrow> Return ([], False, False, Some err)
     | (dbName, None) \<Rightarrow>
        (case QueryContext conn ExtractIndex_query [dbName, tableName, indexName] of
           Inl err \<Rightarrow> Return ([], False, False, Some err)
         | Inr rows \<Rightarrow>
            (case ExtractIndex_loop (next_rows rows) True 0 [] of
               Panic e \<Rightarrow> Panic e
             | Return (Inl err) \<Rightarrow> Return ([], False, False, Some err)
             | Return (Inr (nonUnique, prevSeq, columnNames)) \<Rightarrow>
                 (if length columnNames = 0 then
                    Return ([], False, False,
                      Some (Errorf ''Index %+q in table %+q not found''
                              [ArgString indexName, ArgString tableName]))
                  else Return (columnNames, indexName = ''PRIMARY'', \<not> nonUnique, None)))))"

text \<open>
  The row loop of \<open>ExtractFK\<close>, with \<open>prevPos\<close>, the named result \<open>refTableName\<close> (which
  every \<open>Scan\<close> overwrites) and the two slices.
\<close>

fun ExtractFK_loop ::
  "sql_Row list \<Rightarrow> 64 word \<Rightarrow> string \<Rightarrow> string list \<Rightarrow> string list \<Rightarrow>
     (go_error + string \<times> string list \<times> string list) outcome" where
  "ExtractFK_loop [] prevPos refTableName columnNames refColumnNames =
     Return (Inr (refTableName, columnNames, refColumnNames))"
| "ExtractFK_loop (r # rest) prevPos refTableName columnNames refColumnNames =
     (case scan_fk r of
        Inl err \<Rightarrow> Return (Inl err)
      | Inr (columnName, pos, refTableName', refColumnName) \<Rightarrow>
          (if pos \<noteq> prevPos + 1 then
             Panic (Errorf ''Bad ORDINAL_POSITION, prev is %d, current is %d''
                      [ArgInt prevPos, ArgInt pos])
           else ExtractFK_loop rest pos refTableName'
                  (columnNames @ [columnName]) (refColumnNames @ [refColumnName])))"

definition ExtractFK_query :: string where
  "ExtractFK_query =
     [CHR 0x0A, CHR 0x09, CHR 0x09] @ ''SELECT'' @ [CHR 0x0A, CHR 0x09, CHR 0x09, CHR 0x09] @
      ''COLUMN_NAME, ORDINAL_POSITION, REFERENCED_TABLE_NAME, REFERENCED_COLUMN_NAME'' @
      [CHR 0x0A, CHR 0x09, CHR 0x09] @ ''FROM'' @ [CHR 0x0A, CHR 0x09, CHR 0x09, CHR 0x09] @
      ''INFORMATION_SCHEMA.KEY_COLUMN_USAGE'' @ [CHR 0x0A, CHR 0x09, CHR 0x09] @ ''WHERE'' @
      [CHR 0x0A, CHR 0x09, CHR 0x09, CHR 0x09] @
      ''TABLE_SCHEMA=? AND TABLE_NAME=? AND CONSTRAINT_NAME=? ORDER BY ORDINAL_POSITION''"

definition ExtractFK ::
  "sql_Conn \<Rightarrow> string \<Rightarrow> string \<Rightarrow>
     (string list \<times> string \<times> string list \<times> go_error option) outcome" where
  "ExtractFK conn tableName fkName =
    (case extractDBName conn of
       (dbName, Some err) \<Rightarrow> Return ([], '''', [], Some err)
     | (dbName, None) \<Rightarrow>
        (case QueryContext conn ExtractFK_query [dbName, tableName, fkName] of
           Inl err \<Rightarrow> Return ([], '''', [], Some err)
         | Inr rows \<Rightarrow>
            (case ExtractFK_loop (next_rows rows) 0 '''' [] [] of
               Panic e \<Rightarrow> Panic e
             | Return (Inl err) \<Rightarrow> Return ([], '''', [], Some err)
             | Return (Inr (refTableName, columnNames, refColumnNames)) \<Rightarrow>
                 (if length columnNames = 0 then
                    Return ([], '''', [],
                      Some (Errorf ''FK %+q in table %+q not found''
                              [ArgString fkName, ArgString tableName]))
                  else Return (columnNames, refTableName, refColumnNames, None)))))"

section \<open>Statement directives\<close>

text \<open>
  The tokens of the template document. Of an element only what \<open>Initialize\<close> asks for is
  kept: its attributes (\<open>SelectAttrValue\<close> looks a key up and falls back on the default)
  and what \<open>Text()\<close> returns.
\<close>

record etree_Element =
  Attr :: "string \<rightharpoonup> string"
  Text :: string

datatype etree_Token =
    CharData string
  | Element etree_Element
  | Comment string

definition SelectAttrValue :: "etree_Element \<Rightarrow> string \<Rightarrow> string \<Rightarrow> string" where
  "SelectAttrValue elem key dflt = (case Attr elem key of None \<Rightarrow> dflt | Some v \<Rightarrow> v)"

record textDirective =
  data :: string

record replaceDirective =
  origin :: string
  with_attr :: string

text \<open>
  \<open>Initialize\<close> starts with a type assertion on the token, which panics on a token of
  another kind. The context and statement arguments are not read by either directive.
  The receiver is a pointer: the directive is returned as the call leaves it.
\<close>

definition textDirective_Initialize ::
  "textDirective \<Rightarrow> etree_Token \<Rightarrow> (textDirective \<times> go_error option) outcome" where
  "textDirective_Initialize d tok =
    (case tok of
       CharData s \<Rightarrow> Return (d\<lparr>data := s\<rparr>, None)
     | _ \<Rightarrow> Panic (RuntimeError ''interface conversion: etree.Token is not *etree.CharData''))"

definition textDirective_Generate :: "textDirective \<Rightarrow> string \<times> go_error option" where
  "textDirective_Generate d = (data d, None)"

definition textDirective_GenerateQuery :: "textDirective \<Rightarrow> string \<times> go_error option" where
  "textDirective_GenerateQuery d = (data d, None)"

text \<open>
  \<open>ProcessQueryResult\<close> gets pointers to the two slices of result column names and types;
  the model returns them as the call leaves them, with the error.
\<close>

definition textDirective_ProcessQueryResult ::
  "textDirective \<Rightarrow> string list \<Rightarrow> sql_ColumnType list \<Rightarrow>
     string list \<times> sql_ColumnType list \<times> go_error option" where
  "textDirective_ProcessQueryResult d resultColumnNames resultColumnTypes =
     (resultColumnNames, resultColumnTypes, None)"

definition replaceDirective_Initialize ::
  "replaceDirective \<Rightarrow> etree_Token \<Rightarrow> (replaceDirective \<times> go_error option) outcome" where
  "replaceDirective_Initialize d tok =
    (case tok of
       Element elem \<Rightarrow>
         (let w = SelectAttrValue elem ''with'' '''' in
          if w = '''' then
            Return (d, Some (Errorf ''Missing 'with' attribute in <replace> directive'' []))
          else Return (d\<lparr>origin := Text elem, with_attr := w\<rparr>, None))
     | _ \<Rightarrow> Panic (RuntimeError ''interface conversion: etree.Token is not *etree.Element''))"

definition replaceDirective_Generate :: "replaceDirective \<Rightarrow> string \<times> go_error option" where
  "replaceDirective_Generate d = (with_attr d, None)"

definition replaceDirective_GenerateQuery :: "replaceDirective \<Rightarrow> string \<times> go_error option" where
  "replaceDirective_GenerateQuery d = (origin d, None)"

definition replaceDirective_ProcessQueryResult ::
  "replaceDirective \<Rightarrow> string list \<Rightarrow> sql_ColumnType list \<Rightarrow>
     string list \<times> sql_ColumnType list \<times> go_error option" where
  "replaceDirective_ProcessQueryResult d resultColumnNames resultColumnTypes =
     (resultColumnNames, resultColumnTypes, None)"

text \<open>The interface \<open>StmtDirective\<close>, with its two implementations, and its dispatch.\<close>

datatype StmtDirective =
    TextDirective textDirective
  | ReplaceDirective replaceDirective

fun Generate :: "StmtDirective \<Rightarrow> string \<times> go_error option" where
  "Generate (TextDirective d) = textDirective_Generate d"
| "Generate (ReplaceDirective d) = replaceDirective_Generate d"

fun GenerateQuery :: "StmtDirective \<Rightarrow> string \<times> go_error option" where
  "GenerateQuery (TextDirective d) = textDirective_GenerateQuery d"
| "GenerateQuery (ReplaceDirective d) = replaceDirective_GenerateQuery d"

fun ProcessQueryResult ::
  "StmtDirective \<Rightarrow> string list \<Rightarrow> sql_ColumnType list \<Rightarrow>
     string list \<times> sql_ColumnType list \<times> go_error option" where
  "ProcessQueryResult (TextDirective d) ns ts = textDirective_ProcessQueryResult d ns ts"
| "ProcessQueryResult (ReplaceDirective d) ns ts = replaceDirective_ProcessQueryResult d ns ts"

section \<open>Notions of the specification\<close>

text \<open>
  Sequence numbers are contiguous after \<open>prev\<close> when each one is the previous one plus
  one; contiguous and 1-based is \<open>contiguous 0\<close>.
\<close>

fun contiguous :: "64 word \<Rightarrow> 64 word list \<Rightarrow> bool" where
  "contiguous prev [] = True"
| "contiguous prev (s # ss) = (s = prev + 1 \<and> contiguous s ss)"

text \<open>The values a successful \<open>Scan\<close> of an index row and of a foreign-key row assigns.\<close>

fun index_seq :: "bool \<times> string \<times> 64 word \<Rightarrow> 64 word" where
  "index_seq (nonUnique, columnName, seq) = seq"

fun index_column :: "bool \<times> string \<times> 64 word \<Rightarrow> string" where
  "index_column (nonUnique, columnName, seq) = columnName"

fun index_nonUnique :: "bool \<times> string \<times> 64 word \<Rightarrow> bool" where
  "index_nonUnique (nonUnique, columnName, seq) = nonUnique"

fun fk_pos :: "string \<times> 64 word \<times> string \<times> string \<Rightarrow> 64 word" where
  "fk_pos (columnName, pos, refTableName, refColumnName) = pos"

text \<open>
  A column the decision table does not cover: an unknown scan type, a nullable float
  whose type name is neither FLOAT nor DOUBLE, a nullable integer whose type name is
  outside the integer families.
\<close>

definition not_covered :: "sql_ColumnType \<Rightarrow> bool" where
  "not_covered c =
    (ScanType c \<notin> set [scanTypeFloat32, scanTypeFloat64, scanTypeNullFloat,
        scanTypeInt8, scanTypeInt16, scanTypeInt32, scanTypeInt64,
        scanTypeUint8, scanTypeUint16, scanTypeUint32, scanTypeUint64,
        scanTypeNullInt, scanTypeNullTime, scanTypeRawBytes]
     \<or> (ScanType c = scanTypeNullFloat \<and> DatabaseTypeName c \<notin> set [''FLOAT'', ''DOUBLE''])
     \<or> (ScanType c = scanTypeNullInt \<and>
          DatabaseTypeName c \<notin>
            set [''TINYINT'', ''SMALLINT'', ''YEAR'', ''MEDIUMINT'', ''INT'', ''BIGINT'']))"

text \<open>
  A signed TINYINT(1) column as the driver reports it: declared NOT NULL it has the scan
  type \<open>int8\<close>; declared NULLable it has the nullable-integer scan type, the type name
  TINYINT and no unsigned flag. The display length is 1 in both.
\<close>

definition tinyint1_not_null :: "sql_ColumnType \<Rightarrow> mysqlField \<Rightarrow> bool" where
  "tinyint1_not_null c f = (ScanType c = scanTypeInt8 \<and> field_length f = 1)"

definition tinyint1_nullable :: "sql_ColumnType \<Rightarrow> mysqlField \<Rightarrow> bool" where
  "tinyint1_nullable c f =
     (ScanType c = scanTypeNullInt \<and> DatabaseTypeName c = ''TINYINT'' \<and>
      field_flags f AND flagUnsigned = 0 \<and> field_length f = 1)"

section \<open>An example database\<close>

definition index_row :: "bool \<Rightarrow> string \<Rightarrow> 64 word \<Rightarrow> sql_Row" where
  "index_row nonUnique columnName seq =
     \<lparr>scan_index = Inr (nonUnique, columnName, seq),
      scan_fk = Inl (DriverError ''sql: expected 3 destination arguments in Scan, not 4'')\<rparr>"

definition fk_row :: "string \<Rightarrow> 64 word \<Rightarrow> string \<Rightarrow> string \<Rightarrow> sql_Row" where
  "fk_row columnName pos refTableName refColumnName =
     \<lparr>scan_index = Inl (DriverError ''sql: expected 4 destination arguments in Scan, not 3''),
      scan_fk = Inr (columnName, pos, refTableName, refColumnName)\<rparr>"

definition data_rows :: "sql_Row list \<Rightarrow> sql_Rows" where
  "data_rows rs = \<lparr>ColumnTypes = Inr [], rs_columns = [], next_rows = rs\<rparr>"

text \<open>
  The result columns of \<open>SELECT * FROM `flags`\<close>: a TINYINT(1) NOT NULL, a TINYINT(1)
  NULL and an INT UNSIGNED NOT NULL column. In the flags, 1 is NOT NULL and 32 is
  unsigned.
\<close>

definition flags_rows :: sql_Rows where
  "flags_rows =
     \<lparr>ColumnTypes = Inr
        [\<lparr>DatabaseTypeName = ''TINYINT'', ScanType = scanTypeInt8\<rparr>,
         \<lparr>DatabaseTypeName = ''TINYINT'', ScanType = scanTypeNullInt\<rparr>,
         \<lparr>DatabaseTypeName = ''INT'', ScanType = scanTypeUint32\<rparr>],
      rs_columns =
        [\<lparr>field_length = 1, field_flags = 1\<rparr>,
         \<lparr>field_length = 1, field_flags = 0\<rparr>,
         \<lparr>field_length = 10, field_flags = 33\<rparr>],
      next_rows = []\<rparr>"

text \<open>A result with a nullable DECIMAL column, which the driver scans as a nullable float.\<close>

definition prices_rows :: sql_Rows where
  "prices_rows =
     \<lparr>ColumnTypes = Inr
        [\<lparr>DatabaseTypeName = ''INT'', ScanType = scanTypeInt32\<rparr>,
         \<lparr>DatabaseTypeName = ''DECIMAL'', ScanType = scanTypeNullFloat\<rparr>],
      rs_columns =
        [\<lparr>field_length = 11, field_flags = 1\<rparr>,
         \<lparr>field_length = 12, field_flags = 0\<rparr>],
      next_rows = []\<rparr>"

text \<open>
  The connection: database \<open>shop\<close>; a query without arguments is a column probe; a query
  with arguments is a catalog query, answered by the name of the index or foreign key.
\<close>

definition shop_conn :: sql_Conn where
  "shop_conn =
     \<lparr>QueryContext = (\<lambda>query args.
        case args of
          [] \<Rightarrow> (if query = ''SELECT * FROM '' @ [CHR 0x60] @ ''prices'' @ [CHR 0x60]
                 then Inr prices_rows else Inr flags_rows)
        | [dbName, tableName, name] \<Rightarrow>
            (if name = ''PRIMARY'' then Inr (data_rows [index_row False ''id'' 1])
             else if name = ''uk_abc'' then
               Inr (data_rows [index_row False ''a'' 1, index_row False ''b'' 2,
                               index_row False ''c'' 3])
             else if name = ''ix_gap'' then
               Inr (data_rows [index_row True ''a'' 1, index_row True ''b'' 3])
             else if name = ''fk_gap'' then
               Inr (data_rows [fk_row ''owner_id'' 2 ''users'' ''id''])
             else Inr (data_rows []))
        | _ \<Rightarrow> Inl (DriverError ''sql: wrong number of arguments'')),
      QueryRowContext_Scan = (\<lambda>query. Inr \<lparr>String = ''shop'', Valid = True\<rparr>)\<rparr>"

section \<open>Lemmas on the classification and on the row loops\<close>

lemma column_dataType_in_DataTypes:
  "column_dataType c f = Return dt \<Longrightarrow> dt \<in> set DataTypes"
  by (auto simp: column_dataType_def DataTypes_def Let_def split: scan_type.splits if_splits)

lemma column_dataType_not_covered:
  "not_covered c \<Longrightarrow> column_dataType c f = Panic (bad (ScanType c) (DatabaseTypeName c))"
  unfolding column_dataType_def not_covered_def Let_def
  by (cases "ScanType c") simp_all

lemma column_dataType_covered:
  "\<not> not_covered c \<Longrightarrow> \<exists>dt. column_dataType c f = Return dt"
  unfolding column_dataType_def not_covered_def Let_def
  by (cases "ScanType c") auto

lemma loop_Return:
  "ExtractQueryResultColumns_loop i cts flds acc = Return cols \<Longrightarrow>
     \<exists>dts. length dts = length cts \<and>
       cols = acc @ map (\<lambda>(ct, dt). \<lparr>ColumnType = ct, DataType = dt\<rparr>) (zip cts dts) \<and>
       (\<forall>k<length cts. i + k < length flds \<and>
          column_dataType (cts ! k) (flds ! (i + k)) = Return (dts ! k))"
proof (induction cts arbitrary: i acc)
  case Nil
  then show ?case by simp
next
  case (Cons ct rest)
  from Cons.prems have bound: "i < length flds"
    by (simp split: if_splits)
  from Cons.prems bound obtain dt where
    dt: "column_dataType ct (flds ! i) = Return dt" and
    rec: "ExtractQueryResultColumns_loop (Suc i) rest flds
            (acc @ [\<lparr>ColumnType = ct, DataType = dt\<rparr>]) = Return cols"
    by (auto split: outcome.splits)
  from Cons.IH [OF rec] obtain dts where
    len: "length dts = length rest" and
    cols: "cols = (acc @ [\<lparr>ColumnType = ct, DataType = dt\<rparr>]) @
             map (\<lambda>(ct, dt). \<lparr>ColumnType = ct, DataType = dt\<rparr>) (zip rest dts)" and
    each: "\<forall>k<length rest. Suc i + k < length flds \<and>
             column_dataType (rest ! k) (flds ! (Suc i + k)) = Return (dts ! k)"
    by blast
  have "\<forall>k<length (ct # rest). i + k < length flds \<and>
          column_dataType ((ct # rest) ! k) (flds ! (i + k)) = Return ((dt # dts) ! k)"
  proof (intro allI impI)
    fix k assume k: "k < length (ct # rest)"
    show "i + k < length flds \<and>
          column_dataType ((ct # rest) ! k) (flds ! (i + k)) = Return ((dt # dts) ! k)"
    proof (cases k)
      case 0
      with bound dt show ?thesis by simp
    next
      case (Suc j)
      with k each show ?thesis by simp
    qed
  qed
  moreover have "length (dt # dts) = length (ct # rest)" using len by simp
  moreover have "cols = acc @ map (\<lambda>(ct, dt). \<lparr>ColumnType = ct, DataType = dt\<rparr>)
                              (zip (ct # rest) (dt # dts))"
    using cols by simp
  ultimately show ?case by blast
qed

lemma loop_not_covered:
  "\<exists>c\<in>set cts. not_covered c \<Longrightarrow> i + length cts \<le> length flds \<Longrightarrow>
     \<exists>c\<in>set cts. not_covered c \<and>
       ExtractQueryResultColumns_loop i cts flds acc =
         Panic (bad (ScanType c) (DatabaseTypeName c))"
proof (induction cts arbitrary: i acc)
  case Nil
  then show ?case by simp
next
  case (Cons ct rest)
  from Cons.prems(2) have bound: "\<not> length flds \<le> i" by simp
  show ?case
  proof (cases "not_covered ct")
    case True
    then show ?thesis
      using bound by (simp add: column_dataType_not_covered)
  next
    case False
    then obtain dt where dt: "column_dataType ct (flds ! i) = Return dt"
      using column_dataType_covered by blast
    from False Cons.prems(1) have ex: "\<exists>c\<in>set rest. not_covered c" by auto
    from Cons.prems(2) have "Suc i + length rest \<le> length flds" by simp
    from Cons.IH [OF ex this, of "acc @ [\<lparr>ColumnType = ct, DataType = dt\<rparr>]"]
    show ?thesis using bound dt by auto
  qed
qed

lemma loop_not_covered_Panic:
  "\<exists>c\<in>set cts. not_covered c \<Longrightarrow>
     \<exists>e. ExtractQueryResultColumns_loop i cts flds acc = Panic e"
proof (induction cts arbitrary: i acc)
  case Nil
  then show ?case by simp
next
  case (Cons ct rest)
  show ?case
  proof (cases "not_covered ct")
    case True
    then show ?thesis
      by (simp add: column_dataType_not_covered)
  next
    case False
    then obtain dt where dt: "column_dataType ct (flds ! i) = Return dt"
      using column_dataType_covered by blast
    from False Cons.prems(1) have ex: "\<exists>c\<in>set rest. not_covered c" by auto
    from Cons.IH [OF ex, of "Suc i" "acc @ [\<lparr>ColumnType = ct, DataType = dt\<rparr>]"]
    show ?thesis using dt by auto
  qed
qed

lemma contiguous_upt:
  "contiguous (of_nat n) ss \<longleftrightarrow> ss = map of_nat [Suc n..<Suc n + length ss]"
proof (induction ss arbitrary: n)
  case Nil
  then show ?case by simp
next
  case (Cons s ss)
  have "contiguous (of_nat n) (s # ss) \<longleftrightarrow> s = of_nat (Suc n) \<and> contiguous (of_nat (Suc n)) ss"
    by (auto simp: add.commute)
  also have "\<dots> \<longleftrightarrow> s = of_nat (Suc n) \<and> ss = map of_nat [Suc (Suc n)..<Suc (Suc n) + length ss]"
    using Cons.IH [of "Suc n"] by simp
  finally have step: "contiguous (of_nat n) (s # ss) \<longleftrightarrow>
      s = of_nat (Suc n) \<and> ss = map of_nat [Suc (Suc n)..<Suc (Suc n) + length ss]" .
  have "Suc n < Suc n + length (s # ss)" by simp
  then have "[Suc n..<Suc n + length (s # ss)] = Suc n # [Suc (Suc n)..<Suc n + length (s # ss)]"
    by (rule upt_conv_Cons)
  moreover have "Suc n + length (s # ss) = Suc (Suc n) + length ss" by simp
  ultimately have "[Suc n..<Suc n + length (s # ss)] =
      Suc n # [Suc (Suc n)..<Suc (Suc n) + length ss]"
    by (simp only:)
  then have "s # ss = map of_nat [Suc n..<Suc n + length (s # ss)] \<longleftrightarrow>
      s = of_nat (Suc n) \<and> ss = map of_nat [Suc (Suc n)..<Suc (Suc n) + length ss]"
    by (simp only: list.map list.inject)
  with step show ?case by (simp only:)
qed

lemma contiguous_from_0:
  "contiguous 0 ss \<longleftrightarrow> ss = map of_nat [1..<Suc (length ss)]"
  using contiguous_upt [of 0 ss] by simp

lemma ExtractIndex_loop_gap:
  "map scan_index rs = map Inr vs @ rest \<Longrightarrow> \<not> contiguous prevSeq (map index_seq vs) \<Longrightarrow>
     \<exists>p c. ExtractIndex_loop rs nonUnique prevSeq columnNames =
              Panic (Errorf ''Bad SEQ_IN_INDEX, prev is %d, current is %d'' [ArgInt p, ArgInt c])"
proof (induction vs arbitrary: rs nonUnique prevSeq columnNames)
  case Nil
  then show ?case by simp
next
  case (Cons v vs)
  from Cons.prems(1) obtain r rs' where rs: "rs = r # rs'" and
    r: "scan_index r = Inr v" and rs': "map scan_index rs' = map Inr vs @ rest"
    by (cases rs) auto
  obtain nu cn sq where v: "v = (nu, cn, sq)" by (cases v) auto
  show ?case
  proof (cases "sq = prevSeq + 1")
    case False
    then show ?thesis by (simp add: rs r v)
  next
    case True
    with Cons.prems(2) have "\<not> contiguous sq (map index_seq vs)"
      by (simp add: v)
    from Cons.IH [OF rs' this, of nu "columnNames @ [cn]"]
    show ?thesis using True by (simp add: rs r v)
  qed
qed

lemma ExtractFK_loop_gap:
  "map scan_fk rs = map Inr vs @ rest \<Longrightarrow> \<not> contiguous prevPos (map fk_pos vs) \<Longrightarrow>
     \<exists>p c. ExtractFK_loop rs prevPos refTableName columnNames refColumnNames =
              Panic (Errorf ''Bad ORDINAL_POSITION, prev is %d, current is %d''
                       [ArgInt p, ArgInt c])"
proof (induction vs arbitrary: rs prevPos refTableName columnNames refColumnNames)
  case Nil
  then show ?case by simp
next
  case (Cons v vs)
  from Cons.prems(1) obtain r rs' where rs: "rs = r # rs'" and
    r: "scan_fk r = Inr v" and rs': "map scan_fk rs' = map Inr vs @ rest"
    by (cases rs) auto
  obtain cn ps rt rc where v: "v = (cn, ps, rt, rc)" by (cases v) auto
  show ?case
  proof (cases "ps = prevPos + 1")
    case False
    then show ?thesis by (simp add: rs r v)
  next
    case True
    with Cons.prems(2) have "\<not> contiguous ps (map fk_pos vs)"
      by (simp add: v)
    from Cons.IH [OF rs' this, of rt "columnNames @ [cn]" "refColumnNames @ [rc]"]
    show ?thesis using True by (simp add: rs r v)
  qed
qed

lemma ExtractIndex_loop_Return:
  "ExtractIndex_loop rs nonUnique prevSeq columnNames = Return (Inr (nonUnique', prevSeq', columnNames')) \<Longrightarrow>
     \<exists>vs. map scan_index rs = map Inr vs \<and>
          columnNames' = columnNames @ map index_column vs \<and>
          contiguous prevSeq (map index_seq vs) \<and>
          nonUnique' = (if vs = [] then nonUnique else index_nonUnique (last vs))"
proof (induction rs arbitrary: nonUnique prevSeq columnNames)
  case Nil
  then show ?case by simp
next
  case (Cons r rs)
  from Cons.prems obtain nu cn sq where
    r: "scan_index r = Inr (nu, cn, sq)" and sq: "sq = prevSeq + 1" and
    rec: "ExtractIndex_loop rs nu sq (columnNames @ [cn]) =
            Return (Inr (nonUnique', prevSeq', columnNames'))"
    by (auto split: sum.splits if_splits)
  from Cons.IH [OF rec] obtain vs where
    vs: "map scan_index rs = map Inr vs"
        "columnNames' = (columnNames @ [cn]) @ map index_column vs"
        "contiguous sq (map index_seq vs)"
        "nonUnique' = (if vs = [] then nu else index_nonUnique (last vs))"
    by blast
  let ?vs = "(nu, cn, sq) # vs"
  have "map scan_index (r # rs) = map Inr ?vs" using r vs(1) by simp
  moreover have "columnNames' = columnNames @ map index_column ?vs"
    using vs(2) by simp
  moreover have "contiguous prevSeq (map index_seq ?vs)"
    using vs(3) sq by simp
  moreover have "nonUnique' = (if ?vs = [] then nonUnique else index_nonUnique (last ?vs))"
    using vs(4) by simp
  ultimately show ?case by blast
qed

section \<open>Properties of the driver and of the directives\<close>

text \<open>
  C1. A signed TINYINT(1) result column is classified as \<open>bool\<close>, declared NOT NULL
  (scan type \<open>int8\<close>, length 1) as well as declared NULLable (nullable-integer scan
  type, type name TINYINT, unsigned flag clear, length 1): whenever
  \<open>ExtractQueryResultColumns\<close> returns, the column it returns at that position carries
  the data type \<open>bool\<close>.
\<close>

theorem tinyint1_classified_bool:
  assumes "QueryContext conn query [] = Inr rows"
    and "ColumnTypes rows = Inr columnTypes"
    and "ExtractQueryResultColumns conn query = Return (columns, err)"
    and "k < length columnTypes"
    and "tinyint1_not_null (columnTypes ! k) (rs_columns rows ! k) \<or>
         tinyint1_nullable (columnTypes ! k) (rs_columns rows ! k)"
  shows "column_dataType (columnTypes ! k) (rs_columns rows ! k) = Return ''bool'' \<and>
         err = None \<and> length columns = length columnTypes \<and>
         ColumnType (columns ! k) = columnTypes ! k \<and> DataType (columns ! k) = ''bool''"
proof -
  from assms(1-3) have err: "err = None" and
    loop: "ExtractQueryResultColumns_loop 0 columnTypes (rs_columns rows) [] = Return columns"
    by (auto simp: ExtractQueryResultColumns_def split: outcome.splits)
  from loop_Return [OF loop] obtain dts where
    len: "length dts = length columnTypes" and
    cols: "columns = map (\<lambda>(ct, dt). \<lparr>ColumnType = ct, DataType = dt\<rparr>) (zip columnTypes dts)" and
    each: "\<forall>k<length columnTypes.
             column_dataType (columnTypes ! k) (rs_columns rows ! k) = Return (dts ! k)"
    by auto
  have bool: "column_dataType (columnTypes ! k) (rs_columns rows ! k) = Return ''bool''"
    using assms(5)
    by (auto simp: tinyint1_not_null_def tinyint1_nullable_def column_dataType_def Let_def)
  with each assms(4) have "dts ! k = ''bool''" by simp
  with cols len assms(4) have "ColumnType (columns ! k) = columnTypes ! k"
    and "DataType (columns ! k) = ''bool''" and "length columns = length columnTypes"
    by simp_all
  with bool err show ?thesis by simp
qed

theorem tinyint1_classified_bool_witness:
  "tinyint1_not_null
     \<lparr>DatabaseTypeName = ''TINYINT'', ScanType = scanTypeInt8\<rparr>
     \<lparr>field_length = 1, field_flags = 1\<rparr> \<and>
   tinyint1_nullable
     \<lparr>DatabaseTypeName = ''TINYINT'', ScanType = scanTypeNullInt\<rparr>
     \<lparr>field_length = 1, field_flags = 0\<rparr> \<and>
   map DataType (fst (case ExtractQueryResultColumns shop_conn ''SELECT 1'' of
                        Return r \<Rightarrow> r | Panic e \<Rightarrow> ([], None))) =
     [''bool'', ''bool'', ''uint32'']"
proof -
  let ?cts = "[\<lparr>DatabaseTypeName = ''TINYINT'', ScanType = scanTypeInt8\<rparr>,
               \<lparr>DatabaseTypeName = ''TINYINT'', ScanType = scanTypeNullInt\<rparr>,
               \<lparr>DatabaseTypeName = ''INT'', ScanType = scanTypeUint32\<rparr>]"
  let ?cols = "[\<lparr>ColumnType = ?cts ! 0, DataType = ''bool''\<rparr>,
                \<lparr>ColumnType = ?cts ! 1, DataType = ''bool''\<rparr>,
                \<lparr>ColumnType = ?cts ! 2, DataType = ''uint32''\<rparr>]"
  have q: "QueryContext shop_conn ''SELECT 1'' [] = Inr flags_rows"
    by (simp add: shop_conn_def)
  have c: "ColumnTypes flags_rows = Inr ?cts"
    by (simp add: flags_rows_def)
  have r: "ExtractQueryResultColumns shop_conn ''SELECT 1'' = Return (?cols, None)"
    by (simp add: ExtractQueryResultColumns_def q c flags_rows_def column_dataType_def
        flagUnsigned_def)
  have n0: "tinyint1_not_null (?cts ! 0) (rs_columns flags_rows ! 0) \<or>
            tinyint1_nullable (?cts ! 0) (rs_columns flags_rows ! 0)"
    by (simp add: tinyint1_not_null_def flags_rows_def)
  have n1: "tinyint1_not_null (?cts ! 1) (rs_columns flags_rows ! 1) \<or>
            tinyint1_nullable (?cts ! 1) (rs_columns flags_rows ! 1)"
    by (simp add: tinyint1_nullable_def flags_rows_def flagUnsigned_def)
  have "DataType (?cols ! 0) = ''bool''"
    using tinyint1_classified_bool [OF q c r _ n0] by simp
  moreover have "DataType (?cols ! 1) = ''bool''"
    using tinyint1_classified_bool [OF q c r _ n1] by simp
  ultimately show ?thesis
    using r
    by (simp add: tinyint1_not_null_def tinyint1_nullable_def flagUnsigned_def)
qed

text \<open>
  C2. Every data type the classification assigns on any branch, and so every data type of
  a column that \<open>ExtractQueryResultColumns\<close> returns, is a member of the list that
  \<open>DataTypes()\<close> returns.
\<close>

theorem DataTypes_covers_classifier:
  "(column_dataType c f = Return dt \<longrightarrow> dt \<in> set mysqlDrv_DataTypes) \<and>
   (ExtractQueryResultColumns conn query = Return (columns, err) \<longrightarrow>
      (\<forall>col\<in>set columns. DataType col \<in> set mysqlDrv_DataTypes))"
proof (intro conjI impI)
  assume "column_dataType c f = Return dt"
  then show "dt \<in> set mysqlDrv_DataTypes"
    by (simp add: mysqlDrv_DataTypes_def column_dataType_in_DataTypes)
next
  assume ret: "ExtractQueryResultColumns conn query = Return (columns, err)"
  show "\<forall>col\<in>set columns. DataType col \<in> set mysqlDrv_DataTypes"
  proof (cases "columns = []")
    case True
    then show ?thesis by simp
  next
    case False
    with ret have "\<exists>columnTypes flds.
        ExtractQueryResultColumns_loop 0 columnTypes flds [] = Return columns"
      by (auto simp: ExtractQueryResultColumns_def split: sum.splits outcome.splits)
    then obtain columnTypes flds where
      loop: "ExtractQueryResultColumns_loop 0 columnTypes flds [] = Return columns"
      by blast
    from loop_Return [OF loop] obtain dts where
      len: "length dts = length columnTypes" and
      cols: "columns = map (\<lambda>(ct, dt). \<lparr>ColumnType = ct, DataType = dt\<rparr>) (zip columnTypes dts)" and
      each: "\<forall>k<length columnTypes.
               column_dataType (columnTypes ! k) (flds ! k) = Return (dts ! k)"
      by auto
    show ?thesis
    proof
      fix col assume "col \<in> set columns"
      then obtain k where k: "k < length columns" and col: "col = columns ! k"
        by (auto simp: in_set_conv_nth)
      from k cols len have kk: "k < length columnTypes" by simp
      with cols len col have "DataType col = dts ! k" by simp
      moreover from each kk have "dts ! k \<in> set DataTypes"
        using column_dataType_in_DataTypes by blast
      ultimately show "DataType col \<in> set mysqlDrv_DataTypes"
        by (simp add: mysqlDrv_DataTypes_def)
    qed
  qed
qed

theorem DataTypes_covers_classifier_witness:
  "column_dataType \<lparr>DatabaseTypeName = ''JSON'', ScanType = scanTypeRawBytes\<rparr>
     \<lparr>field_length = 0, field_flags = 0\<rparr> = Return ''json'' \<and>
   ''json'' \<in> set mysqlDrv_DataTypes \<and>
   (\<exists>columns. ExtractQueryResultColumns shop_conn ''SELECT 1'' = Return (columns, None) \<and>
      length columns = 3 \<and> (\<forall>col\<in>set columns. DataType col \<in> set mysqlDrv_DataTypes))"
proof -
  let ?c = "\<lparr>DatabaseTypeName = ''JSON'', ScanType = scanTypeRawBytes\<rparr>"
  let ?f = "\<lparr>field_length = 0, field_flags = 0\<rparr>"
  have j: "column_dataType ?c ?f = Return ''json''"
    by (simp add: column_dataType_def)
  have "\<exists>columns. ExtractQueryResultColumns shop_conn ''SELECT 1'' = Return (columns, None) \<and>
          length columns = 3"
    by (simp add: ExtractQueryResultColumns_def shop_conn_def flags_rows_def
        column_dataType_def flagUnsigned_def)
  then obtain columns where
    r: "ExtractQueryResultColumns shop_conn ''SELECT 1'' = Return (columns, None)" and
    l: "length columns = 3"
    by blast
  from DataTypes_covers_classifier [of ?c ?f "''json''" shop_conn "''SELECT 1''" columns None] j r
  have "''json'' \<in> set mysqlDrv_DataTypes"
    and "\<forall>col\<in>set columns. DataType col \<in> set mysqlDrv_DataTypes"
    by blast+
  with j r l show ?thesis by blast
qed

text \<open>
  C3. When the rows of the catalog query scan up to some row and their sequence numbers
  (SEQ_IN_INDEX for an index, ORDINAL_POSITION for a foreign key) are not contiguous and
  1-based, \<open>ExtractIndex\<close> and \<open>ExtractFK\<close> panic with the bad pair of numbers; they return
  nothing.
\<close>

theorem sequence_gap_panics:
  "(extractDBName conn = (dbName, None) \<and>
    QueryContext conn ExtractIndex_query [dbName, tableName, indexName] = Inr rows \<and>
    map scan_index (next_rows rows) = map Inr vs @ rest \<and>
    \<not> contiguous 0 (map index_seq vs) \<longrightarrow>
      (\<exists>p c. ExtractIndex conn tableName indexName =
         Panic (Errorf ''Bad SEQ_IN_INDEX, prev is %d, current is %d'' [ArgInt p, ArgInt c]))) \<and>
   (extractDBName conn = (dbName, None) \<and>
    QueryContext conn ExtractFK_query [dbName, tableName, fkName] = Inr rows' \<and>
    map scan_fk (next_rows rows') = map Inr ws @ rest' \<and>
    \<not> contiguous 0 (map fk_pos ws) \<longrightarrow>
      (\<exists>p c. ExtractFK conn tableName fkName =
         Panic (Errorf ''Bad ORDINAL_POSITION, prev is %d, current is %d''
                  [ArgInt p, ArgInt c])))"
proof (intro conjI impI)
  assume a: "extractDBName conn = (dbName, None) \<and>
    QueryContext conn ExtractIndex_query [dbName, tableName, indexName] = Inr rows \<and>
    map scan_index (next_rows rows) = map Inr vs @ rest \<and>
    \<not> contiguous 0 (map index_seq vs)"
  then obtain p c where
    "ExtractIndex_loop (next_rows rows) True 0 [] =
       Panic (Errorf ''Bad SEQ_IN_INDEX, prev is %d, current is %d'' [ArgInt p, ArgInt c])"
    using ExtractIndex_loop_gap [of "next_rows rows" vs rest 0 True "[]"] by blast
  with a show "\<exists>p c. ExtractIndex conn tableName indexName =
      Panic (Errorf ''Bad SEQ_IN_INDEX, prev is %d, current is %d'' [ArgInt p, ArgInt c])"
    by (simp add: ExtractIndex_def)
next
  assume a: "extractDBName conn = (dbName, None) \<and>
    QueryContext conn ExtractFK_query [dbName, tableName, fkName] = Inr rows' \<and>
    map scan_fk (next_rows rows') = map Inr ws @ rest' \<and>
    \<not> contiguous 0 (map fk_pos ws)"
  then obtain p c where
    "ExtractFK_loop (next_rows rows') 0 '''' [] [] =
       Panic (Errorf ''Bad ORDINAL_POSITION, prev is %d, current is %d'' [ArgInt p, ArgInt c])"
    using ExtractFK_loop_gap [of "next_rows rows'" ws rest' 0 "''''" "[]" "[]"] by blast
  with a show "\<exists>p c. ExtractFK conn tableName fkName =
      Panic (Errorf ''Bad ORDINAL_POSITION, prev is %d, current is %d'' [ArgInt p, ArgInt c])"
    by (simp add: ExtractFK_def)
qed

theorem sequence_gap_panics_witness:
  "extractDBName shop_conn = (''shop'', None) \<and>
   \<not> contiguous 0 (map index_seq [(True, ''a'', 1), (True, ''b'', 3)]) \<and>
   \<not> contiguous 0 (map fk_pos [(''owner_id'', 2, ''users'', ''id'')]) \<and>
   (\<exists>p c. ExtractIndex shop_conn ''t'' ''ix_gap'' =
      Panic (Errorf ''Bad SEQ_IN_INDEX, prev is %d, current is %d'' [ArgInt p, ArgInt c])) \<and>
   (\<exists>p c. ExtractFK shop_conn ''t'' ''fk_gap'' =
      Panic (Errorf ''Bad ORDINAL_POSITION, prev is %d, current is %d'' [ArgInt p, ArgInt c]))"
proof -
  let ?vs = "[(True, ''a'', 1), (True, ''b'', 3)] :: (bool \<times> string \<times> 64 word) list"
  let ?ws = "[(''owner_id'', 2, ''users'', ''id'')] :: (string \<times> 64 word \<times> string \<times> string) list"
  let ?ri = "data_rows [index_row True ''a'' 1, index_row True ''b'' 3]"
  let ?rf = "data_rows [fk_row ''owner_id'' 2 ''users'' ''id'']"
  have db: "extractDBName shop_conn = (''shop'', None)"
    by (simp add: extractDBName_def shop_conn_def)
  have qi: "QueryContext shop_conn ExtractIndex_query [''shop'', ''t'', ''ix_gap''] = Inr ?ri"
    by (simp add: shop_conn_def)
  have qf: "QueryContext shop_conn ExtractFK_query [''shop'', ''t'', ''fk_gap''] = Inr ?rf"
    by (simp add: shop_conn_def)
  have si: "map scan_index (next_rows ?ri) = map Inr ?vs @ []"
    by (simp add: data_rows_def index_row_def)
  have sf: "map scan_fk (next_rows ?rf) = map Inr ?ws @ []"
    by (simp add: data_rows_def fk_row_def)
  have gi: "\<not> contiguous 0 (map index_seq ?vs)" by simp
  have gf: "\<not> contiguous 0 (map fk_pos ?ws)" by simp
  from sequence_gap_panics [of shop_conn "''shop''" "''t''" "''ix_gap''" ?ri ?vs "[]"
      "''fk_gap''" ?rf ?ws "[]"] db qi qf si sf gi gf
  show ?thesis by blast
qed

text \<open>
  C4. When a result column is not covered by the decision table, the call panics instead
  of returning columns; when the driver's private column slice is as long as the list of
  column types, as the driver builds it, the panic is the classification failure of
  such a column, naming its scan type and type name.
\<close>

theorem uncovered_column_panics:
  assumes "QueryContext conn query [] = Inr rows"
    and "ColumnTypes rows = Inr columnTypes"
    and "\<exists>c\<in>set columnTypes. not_covered c"
  shows "(\<exists>e. ExtractQueryResultColumns conn query = Panic e) \<and>
         (length columnTypes \<le> length (rs_columns rows) \<longrightarrow>
            (\<exists>c\<in>set columnTypes. not_covered c \<and>
               ExtractQueryResultColumns conn query =
                 Panic (bad (ScanType c) (DatabaseTypeName c))))"
proof (intro conjI impI)
  from loop_not_covered_Panic [OF assms(3), of 0 "rs_columns rows" "[]"]
  show "\<exists>e. ExtractQueryResultColumns conn query = Panic e"
    using assms(1,2) by (auto simp: ExtractQueryResultColumns_def)
next
  assume "length columnTypes \<le> length (rs_columns rows)"
  then have "0 + length columnTypes \<le> length (rs_columns rows)" by simp
  from loop_not_covered [OF assms(3) this, of "[]"]
  show "\<exists>c\<in>set columnTypes. not_covered c \<and>
          ExtractQueryResultColumns conn query = Panic (bad (ScanType c) (DatabaseTypeName c))"
    using assms(1,2) by (auto simp: ExtractQueryResultColumns_def)
qed

theorem uncovered_column_panics_witness:
  "not_covered \<lparr>DatabaseTypeName = ''DECIMAL'', ScanType = scanTypeNullFloat\<rparr> \<and>
   ExtractQueryResultColumns shop_conn (''SELECT * FROM '' @ Quote ''prices'') =
     Panic (Errorf ''Unknown column type: scantype=%#v databaseTypeName=%+q''
              [ArgType scanTypeNullFloat, ArgString ''DECIMAL''])"
proof -
  let ?q = "''SELECT * FROM '' @ Quote ''prices''"
  let ?cts = "[\<lparr>DatabaseTypeName = ''INT'', ScanType = scanTypeInt32\<rparr>,
               \<lparr>DatabaseTypeName = ''DECIMAL'', ScanType = scanTypeNullFloat\<rparr>]"
  have q: "QueryContext shop_conn ?q [] = Inr prices_rows"
    by (simp add: shop_conn_def Quote_def)
  have c: "ColumnTypes prices_rows = Inr ?cts"
    by (simp add: prices_rows_def)
  have n: "not_covered \<lparr>DatabaseTypeName = ''DECIMAL'', ScanType = scanTypeNullFloat\<rparr>"
    by (simp add: not_covered_def)
  then have ex: "\<exists>c\<in>set ?cts. not_covered c" by simp
  have l: "length ?cts \<le> length (rs_columns prices_rows)"
    by (simp add: prices_rows_def)
  from uncovered_column_panics [OF q c ex] l
  obtain c where "c \<in> set ?cts" and "not_covered c" and
    p: "ExtractQueryResultColumns shop_conn ?q = Panic (bad (ScanType c) (DatabaseTypeName c))"
    by blast
  moreover have "\<not> not_covered \<lparr>DatabaseTypeName = ''INT'', ScanType = scanTypeInt32\<rparr>"
    by (simp add: not_covered_def)
  ultimately have "c = \<lparr>DatabaseTypeName = ''DECIMAL'', ScanType = scanTypeNullFloat\<rparr>"
    by auto
  with p n show ?thesis by (simp add: bad_def)
qed

text \<open>
  C5. The chain of a literal \<open>SELECT \<close>, a replace directive initialised from an element
  with text \<open>1+1\<close> and attribute \<open>with="?"\<close>, and a literal \<open> AS x\<close>: the
  \<open>GenerateQuery\<close> outputs concatenate, in order, to the probe text \<open>SELECT 1+1 AS x\<close>,
  the \<open>Generate\<close> outputs to the final text \<open>SELECT ? AS x\<close>, and no call fails.
\<close>

theorem select_replace_chain_texts:
  "textDirective_Initialize \<lparr>data = ''''\<rparr> (CharData ''SELECT '') =
     Return (\<lparr>data = ''SELECT ''\<rparr>, None) \<and>
   replaceDirective_Initialize \<lparr>origin = '''', with_attr = ''''\<rparr>
       (Element \<lparr>Attr = [''with'' \<mapsto> ''?''], Text = ''1+1''\<rparr>) =
     Return (\<lparr>origin = ''1+1'', with_attr = ''?''\<rparr>, None) \<and>
   textDirective_Initialize \<lparr>data = ''''\<rparr> (CharData '' AS x'') =
     Return (\<lparr>data = '' AS x''\<rparr>, None) \<and>
   concat (map (fst \<circ> GenerateQuery)
     [TextDirective \<lparr>data = ''SELECT ''\<rparr>,
      ReplaceDirective \<lparr>origin = ''1+1'', with_attr = ''?''\<rparr>,
      TextDirective \<lparr>data = '' AS x''\<rparr>]) = ''SELECT 1+1 AS x'' \<and>
   concat (map (fst \<circ> Generate)
     [TextDirective \<lparr>data = ''SELECT ''\<rparr>,
      ReplaceDirective \<lparr>origin = ''1+1'', with_attr = ''?''\<rparr>,
      TextDirective \<lparr>data = '' AS x''\<rparr>]) = ''SELECT ? AS x'' \<and>
   map (snd \<circ> GenerateQuery)
     [TextDirective \<lparr>data = ''SELECT ''\<rparr>,
      ReplaceDirective \<lparr>origin = ''1+1'', with_attr = ''?''\<rparr>,
      TextDirective \<lparr>data = '' AS x''\<rparr>] = [None, None, None] \<and>
   map (snd \<circ> Generate)
     [TextDirective \<lparr>data = ''SELECT ''\<rparr>,
      ReplaceDirective \<lparr>origin = ''1+1'', with_attr = ''?''\<rparr>,
      TextDirective \<lparr>data = '' AS x''\<rparr>] = [None, None, None]"
  by (simp add: textDirective_Initialize_def replaceDirective_Initialize_def
      SelectAttrValue_def textDirective_Generate_def textDirective_GenerateQuery_def
      replaceDirective_Generate_def replaceDirective_GenerateQuery_def)

text \<open>
  C6. When the catalog query for the named index, or for the named foreign key, yields no
  row, the call returns the error \<open>not found\<close> built from that name and the table name,
  with no column names (and the zero values of the other results).
\<close>

theorem zero_rows_not_found:
  "(extractDBName conn = (dbName, None) \<and>
    QueryContext conn ExtractIndex_query [dbName, tableName, indexName] = Inr rows \<and>
    next_rows rows = [] \<longrightarrow>
      ExtractIndex conn tableName indexName =
        Return ([], False, False,
          Some (Errorf ''Index %+q in table %+q not found''
                  [ArgString indexName, ArgString tableName]))) \<and>
   (extractDBName conn = (dbName, None) \<and>
    QueryContext conn ExtractFK_query [dbName, tableName, fkName] = Inr rows' \<and>
    next_rows rows' = [] \<longrightarrow>
      ExtractFK conn tableName fkName =
        Return ([], '''', [],
          Some (Errorf ''FK %+q in table %+q not found''
                  [ArgString fkName, ArgString tableName])))"
  by (simp add: ExtractIndex_def ExtractFK_def)

theorem zero_rows_not_found_witness:
  "extractDBName shop_conn = (''shop'', None) \<and>
   ExtractIndex shop_conn ''orders'' ''ix_none'' =
     Return ([], False, False,
       Some (Errorf ''Index %+q in table %+q not found''
               [ArgString ''ix_none'', ArgString ''orders''])) \<and>
   ExtractFK shop_conn ''orders'' ''fk_none'' =
     Return ([], '''', [],
       Some (Errorf ''FK %+q in table %+q not found''
               [ArgString ''fk_none'', ArgString ''orders'']))"
proof -
  have db: "extractDBName shop_conn = (''shop'', None)"
    by (simp add: extractDBName_def shop_conn_def)
  have qi: "QueryContext shop_conn ExtractIndex_query [''shop'', ''orders'', ''ix_none''] =
              Inr (data_rows [])"
    by (simp add: shop_conn_def)
  have qf: "QueryContext shop_conn ExtractFK_query [''shop'', ''orders'', ''fk_none''] =
              Inr (data_rows [])"
    by (simp add: shop_conn_def)
  have e: "next_rows (data_rows []) = []"
    by (simp add: data_rows_def)
  from zero_rows_not_found [of shop_conn "''shop''" "''orders''" "''ix_none''" "data_rows []"
      "''fk_none''" "data_rows []"] db qi qf e
  show ?thesis by blast
qed

text \<open>
  C7. \<open>Initialize\<close> of the replace directive on an element: when the attribute \<open>with\<close> is
  absent or empty it returns the error \<open>Missing 'with' attribute in <replace> directive\<close>,
  whose text contains the attribute's name, and leaves the directive as it was; otherwise
  it returns no error and the directive holds the element's text as origin and the
  attribute's value as replacement.
\<close>

theorem replaceDirective_Initialize_with:
  "replaceDirective_Initialize d (Element elem) =
     (case Attr elem ''with'' of
        None \<Rightarrow>
          Return (d, Some (Errorf ''Missing 'with' attribute in <replace> directive'' []))
      | Some w \<Rightarrow>
          if w = '''' then
            Return (d, Some (Errorf ''Missing 'with' attribute in <replace> directive'' []))
          else Return (d\<lparr>origin := Text elem, with_attr := w\<rparr>, None)) \<and>
   ''Missing 'with' attribute in <replace> directive'' =
     ''Missing '' @ [CHR 0x27] @ ''with'' @ [CHR 0x27] @ '' attribute in <replace> directive''"
  by (simp add: replaceDirective_Initialize_def SelectAttrValue_def split: option.splits)

text \<open>
  C8. \<open>ExtractColumns\<close> on a table is \<open>ExtractQueryResultColumns\<close> on the query
  \<open>SELECT * FROM\<close> followed by the quoted table name: the two column discoveries are one
  algorithm.
\<close>

theorem ExtractColumns_is_query_on_quoted_table:
  "ExtractColumns conn tableName =
     ExtractQueryResultColumns conn (''SELECT * FROM '' @ Quote tableName)"
  by (simp add: ExtractColumns_def Quote_def)

text \<open>
  C9. A successful \<open>ExtractIndex\<close> call: the primary flag holds exactly when the index
  name is \<open>PRIMARY\<close>; every row of the catalog query was scanned, the sequence numbers
  are 1, 2, ... and the column names are those of the rows in that order; the unique flag
  is the negation of the last row's NON_UNIQUE; so for a unique index (no row is
  non-unique) of several columns not named \<open>PRIMARY\<close> the unique flag is true and the
  primary flag false.
\<close>

theorem ExtractIndex_success:
  assumes "ExtractIndex conn tableName indexName =
             Return (columnNames, isPrimary, isUnique, None)"
  shows "(isPrimary \<longleftrightarrow> indexName = ''PRIMARY'') \<and>
         (\<exists>dbName rows vs.
            extractDBName conn = (dbName, None) \<and>
            QueryContext conn ExtractIndex_query [dbName, tableName, indexName] = Inr rows \<and>
            map scan_index (next_rows rows) = map Inr vs \<and> vs \<noteq> [] \<and>
            map index_seq vs = map of_nat [1..<Suc (length vs)] \<and>
            columnNames = map index_column vs \<and>
            (isUnique \<longleftrightarrow> \<not> index_nonUnique (last vs)) \<and>
            ((\<forall>v\<in>set vs. \<not> index_nonUnique v) \<and> 1 < length vs \<and> indexName \<noteq> ''PRIMARY''
               \<longrightarrow> isUnique \<and> \<not> isPrimary))"
proof -
  from assms obtain dbName where db: "extractDBName conn = (dbName, None)"
    by (auto simp: ExtractIndex_def split: prod.splits option.splits)
  from assms db obtain rows where
    q: "QueryContext conn ExtractIndex_query [dbName, tableName, indexName] = Inr rows"
    by (auto simp: ExtractIndex_def split: sum.splits)
  from assms db q obtain nonUnique prevSeq where
    loop: "ExtractIndex_loop (next_rows rows) True 0 [] =
             Return (Inr (nonUnique, prevSeq, columnNames))" and
    ne: "columnNames \<noteq> []" and
    prim: "isPrimary \<longleftrightarrow> indexName = ''PRIMARY''" and
    uniq: "isUnique \<longleftrightarrow> \<not> nonUnique"
    by (auto simp: ExtractIndex_def split: outcome.splits sum.splits if_splits)
  from ExtractIndex_loop_Return [OF loop] obtain vs where
    vs: "map scan_index (next_rows rows) = map Inr vs"
        "columnNames = map index_column vs"
        "contiguous 0 (map index_seq vs)"
        "nonUnique = (if vs = [] then True else index_nonUnique (last vs))"
    by auto
  from vs(2) ne have nonempty: "vs \<noteq> []" by auto
  from vs(3) have seqs: "map index_seq vs = map of_nat [1..<Suc (length vs)]"
    by (simp add: contiguous_from_0)
  from vs(4) nonempty uniq have u: "isUnique \<longleftrightarrow> \<not> index_nonUnique (last vs)" by simp
  have "(\<forall>v\<in>set vs. \<not> index_nonUnique v) \<and> 1 < length vs \<and> indexName \<noteq> ''PRIMARY''
          \<longrightarrow> isUnique \<and> \<not> isPrimary"
    using u prim nonempty by auto
  with db q vs(1,2) nonempty seqs u prim show ?thesis by blast
qed

theorem ExtractIndex_success_witness:
  "ExtractIndex shop_conn ''t'' ''uk_abc'' = Return ([''a'', ''b'', ''c''], False, True, None) \<and>
   (\<exists>vs. map scan_index
           [index_row False ''a'' 1, index_row False ''b'' 2, index_row False ''c'' 3] =
         map Inr vs \<and>
      map index_seq vs = [1, 2, 3] \<and> map index_column vs = [''a'', ''b'', ''c''] \<and>
      (\<forall>v\<in>set vs. \<not> index_nonUnique v) \<and> 1 < length vs) \<and>
   ''uk_abc'' \<noteq> ''PRIMARY'' \<and>
   ExtractIndex shop_conn ''t'' ''PRIMARY'' = Return ([''id''], True, True, None)"
proof -
  let ?rs = "[index_row False ''a'' 1, index_row False ''b'' 2, index_row False ''c'' 3]"
  have db: "extractDBName shop_conn = (''shop'', None)"
    by (simp add: extractDBName_def shop_conn_def)
  have qu: "QueryContext shop_conn ExtractIndex_query [''shop'', ''t'', ''uk_abc''] =
              Inr (data_rows ?rs)"
    by (simp add: shop_conn_def)
  have qp: "QueryContext shop_conn ExtractIndex_query [''shop'', ''t'', ''PRIMARY''] =
              Inr (data_rows [index_row False ''id'' 1])"
    by (simp add: shop_conn_def)
  have u: "ExtractIndex shop_conn ''t'' ''uk_abc'' =
             Return ([''a'', ''b'', ''c''], False, True, None)"
    by (simp add: ExtractIndex_def db qu data_rows_def index_row_def)
  have p: "ExtractIndex shop_conn ''t'' ''PRIMARY'' = Return ([''id''], True, True, None)"
    by (simp add: ExtractIndex_def db qp data_rows_def index_row_def)
  from ExtractIndex_success [OF u] have "\<exists>dbName rows vs.
      extractDBName shop_conn = (dbName, None) \<and>
      QueryContext shop_conn ExtractIndex_query [dbName, ''t'', ''uk_abc''] = Inr rows \<and>
      map scan_index (next_rows rows) = map Inr vs"
    by (elim conjE exE) (intro exI conjI, assumption+)
  then obtain dbName rows vs where
    d: "extractDBName shop_conn = (dbName, None)" and
    q: "QueryContext shop_conn ExtractIndex_query [dbName, ''t'', ''uk_abc''] = Inr rows" and
    sc: "map scan_index (next_rows rows) = map Inr vs"
    by (elim conjE exE)
  from d db have "dbName = ''shop''" by simp
  with q qu have rows: "rows = data_rows ?rs" by simp
  have sc': "map scan_index ?rs = map Inr vs"
    using sc by (simp add: rows data_rows_def)
  then have vs: "vs = [(False, ''a'', 1), (False, ''b'', 2), (False, ''c'', 3)]"
    by (auto simp: index_row_def Cons_eq_map_conv)
  have "map index_seq vs = [1, 2, 3]" and "map index_column vs = [''a'', ''b'', ''c'']"
    and "\<forall>v\<in>set vs. \<not> index_nonUnique v" and "1 < length vs"
    by (simp_all add: vs)
  with sc' u p show ?thesis by auto
qed

text \<open>
  C10. A literal directive: \<open>Initialize\<close> on character data stores the data and returns
  no error; \<open>Generate\<close> and \<open>GenerateQuery\<close> both return the stored data and no error;
  \<open>ProcessQueryResult\<close> leaves the column names and types as they are and returns no
  error; so over a chain of literal directives the probe query is the final query.
\<close>

theorem textDirective_probe_is_final:
  "textDirective_Initialize d0 (CharData s) = Return (d0\<lparr>data := s\<rparr>, None) \<and>
   textDirective_Generate (d0\<lparr>data := s\<rparr>) = (s, None) \<and>
   textDirective_GenerateQuery (d0\<lparr>data := s\<rparr>) = (s, None) \<and>
   textDirective_Generate d = (data d, None) \<and>
   textDirective_GenerateQuery d = textDirective_Generate d \<and>
   textDirective_ProcessQueryResult d resultColumnNames resultColumnTypes =
     (resultColumnNames, resultColumnTypes, None) \<and>
   ProcessQueryResult (TextDirective d) resultColumnNames resultColumnTypes =
     (resultColumnNames, resultColumnTypes, None) \<and>
   map GenerateQuery (map TextDirective ds) = map (\<lambda>d. (data d, None)) ds \<and>
   map Generate (map TextDirective ds) = map (\<lambda>d. (data d, None)) ds \<and>
   concat (map (fst \<circ> GenerateQuery) (map TextDirective ds)) =
     concat (map (fst \<circ> Generate) (map TextDirective ds))"
  by (simp add: textDirective_Initialize_def textDirective_Generate_def
      textDirective_GenerateQuery_def textDirective_ProcessQueryResult_def comp_def)

end
